theory Spec2Isabelle
  imports Main
begin

section \<open>The Robot orchestration layer of the igus motor controller\<close>

text \<open>
  A shallow embedding of the class \<open>Robot\<close> of \<open>src/robot.js\<close>. The class owns the
  joint controllers (\<open>Motor\<close> objects), five boolean flags and the in-memory
  configuration; its methods mutate the object, call methods of the motors, emit
  notifications and write the configuration file. Here every method is a function from
  the state before the call to the state after it, paired with the way the call ended
  (it returned, or it threw).

  The file is an ES module, so it runs in strict mode.
\<close>

subsection \<open>JavaScript values and plain objects\<close>

text \<open>
  The values that configuration entries and motor properties hold. Numbers are only
  stored and compared with \<open>null\<close>, never computed with, so integers stand for them.
  An object is the list of its own properties in insertion order. Values are treated
  as immutable data (no two entries share one mutable object).
\<close>

datatype jsval =
    JUndefined
  | JNull
  | JBool bool
  | JNum int
  | JStr string
  | JObj "(string \<times> jsval) list"

type_synonym jsobject = "(string \<times> jsval) list"

text \<open>\<open>value == null\<close> holds of \<open>null\<close> and of \<open>undefined\<close>.\<close>

fun loosely_null :: "jsval \<Rightarrow> bool" where
  "loosely_null JUndefined = True"
| "loosely_null JNull = True"
| "loosely_null _ = False"

text \<open>The truthiness that \<open>Array.prototype.every\<close> applies to its callback's result.\<close>

fun truthy :: "jsval \<Rightarrow> bool" where
  "truthy JUndefined = False"
| "truthy JNull = False"
| "truthy (JBool b) = b"
| "truthy (JNum n) = (n \<noteq> 0)"
| "truthy (JStr s) = (s \<noteq> [])"
| "truthy (JObj ps) = True"

text \<open>
  \<open>o[k] = v\<close> on an object: an own property keeps its place, a new one goes last.
\<close>

fun obj_set :: "string \<Rightarrow> 'a \<Rightarrow> (string \<times> 'a) list \<Rightarrow> (string \<times> 'a) list" where
  "obj_set k v [] = [(k, v)]"
| "obj_set k v ((k', v') # ps) =
     (if k' = k then (k, v) # ps else (k', v') # obj_set k v ps)"

text \<open>Reading \<open>o.k\<close> where \<open>k\<close> is a data property: the own value, or \<open>undefined\<close>.\<close>

definition obj_get :: "jsobject \<Rightarrow> string \<Rightarrow> jsval" where
  "obj_get ps k = (case map_of ps k of None \<Rightarrow> JUndefined | Some v \<Rightarrow> v)"

text \<open>
  The property names every plain object inherits from \<open>Object.prototype\<close>. Looking one
  of them up on an object that has no own property of that name yields a built-in
  function (or the prototype itself), not \<open>undefined\<close>; assignments through such a value
  change the built-ins, which lie outside this model. The name \<open>__proto__\<close> is also
  special as the target of an assignment: on an object without an own property of that
  name the assignment runs the accessor of \<open>Object.prototype\<close>, which replaces the
  prototype of the object (or does nothing, for a primitive) and leaves the own
  properties as they are.
\<close>

definition object_prototype_names :: "string list" where
  "object_prototype_names =
     [''constructor'', ''__defineGetter__'', ''__defineSetter__'', ''hasOwnProperty'',
      ''__lookupGetter__'', ''__lookupSetter__'', ''isPrototypeOf'',
      ''propertyIsEnumerable'', ''toString'', ''valueOf'', ''__proto__'',
      ''toLocaleString'']"

definition inherited_name :: "string \<Rightarrow> bool" where
  "inherited_name k = (k \<in> set object_prototype_names)"

subsection \<open>Errors and outcomes\<close>

text \<open>
  \<open>TypeError\<close> is what the engine throws when a property of \<open>undefined\<close> is read or
  written, when a property is written on a primitive in strict mode, and when a value
  that is not a function is called. \<open>JointCommandError\<close> stands for whatever a method
  of a motor throws. \<open>robot.js\<close> defines no error class of its own.
\<close>

datatype error = TypeError | JointCommandError

datatype outcome = Returned | Thrown error | Unmodelled

fun outcome_of :: "error option \<Rightarrow> outcome" where
  "outcome_of None = Returned"
| "outcome_of (Some e) = Thrown e"

subsection \<open>The joint controller\<close>

text \<open>
  Modelled from the spec: the class \<open>Motor\<close> (\<open>motor.js\<close>) is not part of the source.
  A motor is the table of its own data properties (\<open>id\<close>, \<open>home\<close>, the parameters that
  \<open>updateConfig\<close> assigns, and whatever else it keeps); its methods are a parameter
  \<open>M\<close> of every operation below: \<open>M c m\<close> is the motor after the call of method \<open>c\<close> on
  motor \<open>m\<close>, with the error the call threw, if any. The commands are those of the
  Joint Controller Interface.
\<close>

type_synonym motor = jsobject

datatype motor_cmd =
    WriteJointSetPoints
  | SetPosition jsval jsval
  | GoHome
  | Reset
  | Enable
  | Disable
  | Zero
  | Calibrate
  | QueryPosition
  | QueryParameter jsval jsval
  | UpdateZeroStep

fun method_name :: "motor_cmd \<Rightarrow> string" where
  "method_name WriteJointSetPoints = ''writeJointSetPoints''"
| "method_name (SetPosition p v) = ''setPosition''"
| "method_name GoHome = ''goHome''"
| "method_name Reset = ''reset''"
| "method_name Enable = ''enable''"
| "method_name Disable = ''disable''"
| "method_name Zero = ''zero''"
| "method_name Calibrate = ''calibrate''"
| "method_name QueryPosition = ''queryPosition''"
| "method_name (QueryParameter i j) = ''queryParameter''"
| "method_name UpdateZeroStep = ''updateZeroStep''"

type_synonym motor_class = "motor_cmd \<Rightarrow> motor \<Rightarrow> motor \<times> error option"

text \<open>
  \<open>motor.method(...)\<close>. An own data property of the method's name (which
  \<open>updateConfig\<close> can create) hides the method, and calling it throws.
\<close>

definition invoke :: "motor_class \<Rightarrow> motor_cmd \<Rightarrow> motor \<Rightarrow> motor \<times> error option" where
  "invoke M c m =
     (if map_of m (method_name c) \<noteq> None then (m, Some TypeError) else M c m)"

subsection \<open>The robot\<close>

datatype notification = Ready | State | Meta | Encoder

text \<open>
  What \<open>config.json\<close> holds when \<open>readConfig\<close> runs: nothing, a JSON object, or
  something that cannot be read or parsed.
\<close>

datatype file_state = Absent | Holds jsobject | Unreadable

text \<open>
  The fields of \<open>Robot\<close>. \<open>motors\<close> is \<open>this.motors\<close> with the key under which
  \<open>this.motorMap\<close> holds each motor (both refer to the same objects); \<open>config\<close> is
  \<open>None\<close> while \<open>this.config\<close> is \<open>undefined\<close>. Three fields record effects on the
  collaborators, in order: \<open>emitted\<close> the notifications passed to \<open>emit\<close>, \<open>calls\<close> the
  method calls made on motors, \<open>written\<close> the configurations passed to
  \<open>fs.writeFileSync\<close>.
\<close>

record robot =
  rid :: string
  uiFrequency :: nat
  cycleTime :: nat
  stopped :: bool
  ready :: bool
  home :: bool
  homing :: bool
  moving :: bool
  config :: "jsobject option"
  motors :: "(string \<times> motor) list"
  emitted :: "notification list"
  calls :: "(string \<times> motor_cmd) list"
  written :: "jsobject list"

definition emit :: "notification \<Rightarrow> robot \<Rightarrow> robot" where
  "emit n s = s\<lparr>emitted := emitted s @ [n]\<rparr>"

subsubsection \<open>Configuration file\<close>

text \<open>
  \<open>readConfig\<close>: creates the file with \<open>{}\<close> when it does not exist, then reads it;
  any error is caught and leaves \<open>this.config\<close> as it was.
\<close>

definition readConfig :: "file_state \<Rightarrow> robot \<Rightarrow> robot" where
  "readConfig f s =
     (case f of
        Absent \<Rightarrow> s\<lparr>config := Some [], written := written s @ [[]]\<rparr>
      | Holds c \<Rightarrow> s\<lparr>config := Some c\<rparr>
      | Unreadable \<Rightarrow> s)"

text \<open>
  \<open>writeConfig\<close>: errors are caught; \<open>JSON.stringify(undefined)\<close> is \<open>undefined\<close>, which
  \<open>writeFileSync\<close> refuses, so nothing is written while there is no configuration.
\<close>

definition writeConfig :: "robot \<Rightarrow> robot" where
  "writeConfig s =
     (case config s of
        None \<Rightarrow> s
      | Some c \<Rightarrow> s\<lparr>written := written s @ [c]\<rparr>)"

subsubsection \<open>Construction\<close>

text \<open>
  \<open>start\<close> registers the three timers (the ticks below), sets \<open>ready\<close> and emits
  \<open>ready\<close>.
\<close>

definition start :: "robot \<Rightarrow> robot" where
  "start s = emit Ready (s\<lparr>ready := True\<rparr>)"

text \<open>
  \<open>setup\<close>: reads the configuration, creates the motors and subscribes to their events
  (the handlers below), then starts. \<open>ms\<close> is the table of freshly constructed motors.
\<close>

definition setup_robot :: "file_state \<Rightarrow> (string \<times> motor) list \<Rightarrow> robot \<Rightarrow> robot" where
  "setup_robot f ms s = start ((readConfig f s)\<lparr>motors := ms\<rparr>)"

definition constructor :: "string \<Rightarrow> file_state \<Rightarrow> (string \<times> motor) list \<Rightarrow> robot" where
  "constructor i f ms =
     setup_robot f ms
       \<lparr>rid = i, uiFrequency = 1000, cycleTime = 50, stopped = False, ready = False,
        home = False, homing = False, moving = False, config = None, motors = [],
        emitted = [], calls = [], written = []\<rparr>"

text \<open>\<open>robot.js\<close> creates one motor, under the key \<open>j0\<close>.\<close>

definition new_Robot :: "string \<Rightarrow> file_state \<Rightarrow> motor \<Rightarrow> robot" where
  "new_Robot i f m = constructor i f [(''j0'', m)]"

subsubsection \<open>Fan-out to the motors\<close>

text \<open>
  \<open>this.motors.forEach(motor => motor.method())\<close>: the motors in order; a call that
  throws ends the loop, and the error leaves \<open>forEach\<close>. The result is the motors after
  the loop, the calls made, and the error if one was thrown.
\<close>

fun forEach_motor ::
  "motor_class \<Rightarrow> motor_cmd \<Rightarrow> (string \<times> motor) list
     \<Rightarrow> (string \<times> motor) list \<times> (string \<times> motor_cmd) list \<times> error option" where
  "forEach_motor M c [] = ([], [], None)"
| "forEach_motor M c ((i, m) # ms) =
     (case invoke M c m of
        (m', Some e) \<Rightarrow> ((i, m') # ms, [(i, c)], Some e)
      | (m', None) \<Rightarrow>
          (case forEach_motor M c ms of
             (ms', tr, r) \<Rightarrow> ((i, m') # ms', (i, c) # tr, r)))"

definition all_motors :: "motor_class \<Rightarrow> motor_cmd \<Rightarrow> robot \<Rightarrow> robot \<times> error option" where
  "all_motors M c s =
     (case forEach_motor M c (motors s) of
        (ms', tr, r) \<Rightarrow> (s\<lparr>motors := ms', calls := calls s @ tr\<rparr>, r))"

text \<open>
  \<open>this.motorMap[id].method(...)\<close>: \<open>motorMap[id]\<close> is \<open>undefined\<close> for an id that is no
  key of the map, and a built-in without the method for an inherited name; the call
  throws \<open>TypeError\<close> in both cases.
\<close>

definition one_motor :: "motor_class \<Rightarrow> string \<Rightarrow> motor_cmd \<Rightarrow> robot \<Rightarrow> robot \<times> outcome" where
  "one_motor M i c s =
     (case map_of (motors s) i of
        None \<Rightarrow> (s, Thrown TypeError)
      | Some m \<Rightarrow>
          (case invoke M c m of
             (m', r) \<Rightarrow>
               (s\<lparr>motors := obj_set i m' (motors s), calls := calls s @ [(i, c)]\<rparr>,
                outcome_of r)))"

subsubsection \<open>Event handlers and the control loop\<close>

definition robotState :: "robot \<Rightarrow> robot \<times> outcome" where
  "robotState s = (emit State s, Returned)"

text \<open>\<open>motor.home\<close> as \<open>every\<close> tests it.\<close>

definition motor_home :: "string \<times> motor \<Rightarrow> bool" where
  "motor_home im = truthy (obj_get (snd im) ''home'')"

definition motorHomed :: "string \<Rightarrow> robot \<Rightarrow> robot \<times> outcome" where
  "motorHomed i s =
     (let s1 = (if homing s \<and> list_all motor_home (motors s)
                then s\<lparr>home := True, homing := False\<rparr> else s)
      in (emit State (emit Meta s1), Returned))"

definition writeJointSetPoints :: "motor_class \<Rightarrow> robot \<Rightarrow> robot \<times> outcome" where
  "writeJointSetPoints M s =
     (if stopped s then (s, Returned)
      else (case all_motors M WriteJointSetPoints s of (s', r) \<Rightarrow> (s', outcome_of r)))"

subsubsection \<open>Motor actions\<close>

definition motorSetPosition ::
  "motor_class \<Rightarrow> string \<Rightarrow> jsval \<Rightarrow> jsval \<Rightarrow> robot \<Rightarrow> robot \<times> outcome" where
  "motorSetPosition M i position velocity s = one_motor M i (SetPosition position velocity) s"

definition motorHome :: "motor_class \<Rightarrow> string \<Rightarrow> robot \<Rightarrow> robot \<times> outcome" where
  "motorHome M i s = one_motor M i GoHome s"

definition motorResetErrors :: "motor_class \<Rightarrow> string \<Rightarrow> robot \<Rightarrow> robot \<times> outcome" where
  "motorResetErrors M i s = one_motor M i Reset s"

definition motorEnable :: "motor_class \<Rightarrow> string \<Rightarrow> robot \<Rightarrow> robot \<times> outcome" where
  "motorEnable M i s = one_motor M i Enable s"

definition motorDisable :: "motor_class \<Rightarrow> string \<Rightarrow> robot \<Rightarrow> robot \<times> outcome" where
  "motorDisable M i s = one_motor M i Disable s"

definition motorZero :: "motor_class \<Rightarrow> string \<Rightarrow> robot \<Rightarrow> robot \<times> outcome" where
  "motorZero M i s = one_motor M i Zero s"

definition motorCalibrate :: "motor_class \<Rightarrow> string \<Rightarrow> robot \<Rightarrow> robot \<times> outcome" where
  "motorCalibrate M i s = one_motor M i Calibrate s"

definition queryMotorPosition :: "motor_class \<Rightarrow> string \<Rightarrow> robot \<Rightarrow> robot \<times> outcome" where
  "queryMotorPosition M i s = one_motor M i QueryPosition s"

definition queryMotorParamter ::
  "motor_class \<Rightarrow> string \<Rightarrow> jsval \<Rightarrow> jsval \<Rightarrow> robot \<Rightarrow> robot \<times> outcome" where
  "queryMotorParamter M i index subindex s = one_motor M i (QueryParameter index subindex) s"

subsubsection \<open>Robot actions\<close>

text \<open>Each sets its flag first, then loops over the motors; those that emit do so last.\<close>

definition robotHome :: "motor_class \<Rightarrow> robot \<Rightarrow> robot \<times> outcome" where
  "robotHome M s =
     (case all_motors M GoHome (s\<lparr>homing := True\<rparr>) of (s', r) \<Rightarrow> (s', outcome_of r))"

definition robotStop :: "motor_class \<Rightarrow> robot \<Rightarrow> robot \<times> outcome" where
  "robotStop M s =
     (case all_motors M Disable (s\<lparr>stopped := True\<rparr>) of
        (s', Some e) \<Rightarrow> (s', Thrown e)
      | (s', None) \<Rightarrow> (emit Meta s', Returned))"

definition robotCenter :: "motor_class \<Rightarrow> robot \<Rightarrow> robot \<times> outcome" where
  "robotCenter M s =
     (case all_motors M Zero (s\<lparr>moving := True\<rparr>) of
        (s', Some e) \<Rightarrow> (s', Thrown e)
      | (s', None) \<Rightarrow> (emit Meta s', Returned))"

definition robotReset :: "motor_class \<Rightarrow> robot \<Rightarrow> robot \<times> outcome" where
  "robotReset M s =
     (case all_motors M Reset (s\<lparr>stopped := False\<rparr>) of
        (s', Some e) \<Rightarrow> (s', Thrown e)
      | (s', None) \<Rightarrow> (emit Meta s', Returned))"

definition robotEnable :: "motor_class \<Rightarrow> robot \<Rightarrow> robot \<times> outcome" where
  "robotEnable M s =
     (case all_motors M Enable (s\<lparr>stopped := False\<rparr>) of
        (s', Some e) \<Rightarrow> (s', Thrown e)
      | (s', None) \<Rightarrow> (emit Meta s', Returned))"

subsubsection \<open>Metadata\<close>

record meta_view =
  meta_stopped :: bool
  meta_ready :: bool
  meta_home :: bool
  meta_homing :: bool
  meta_moving :: bool
  meta_motors :: "(jsval \<times> jsval) list"

text \<open>The getter \<open>meta\<close>: the five flags, and \<open>{id: motor.id}\<close> under each \<open>motor.id\<close>.\<close>

definition meta :: "robot \<Rightarrow> meta_view" where
  "meta s =
     \<lparr>meta_stopped = stopped s, meta_ready = ready s, meta_home = home s,
      meta_homing = homing s, meta_moving = moving s,
      meta_motors = map (\<lambda>im. (obj_get (snd im) ''id'', obj_get (snd im) ''id'')) (motors s)\<rparr>"

subsubsection \<open>Configuration updates\<close>

text \<open>\<open>const [joint, param] = key.split('.')\<close>, for a key that contains a dot.\<close>

definition key_joint :: "string \<Rightarrow> string" where
  "key_joint key = takeWhile (\<lambda>c. c \<noteq> CHR ''.'') key"

definition key_param :: "string \<Rightarrow> string" where
  "key_param key =
     takeWhile (\<lambda>c. c \<noteq> CHR ''.'') (drop 1 (dropWhile (\<lambda>c. c \<noteq> CHR ''.'') key))"

text \<open>
  \<open>this.config[joint][param] = value\<close>. Reading \<open>this.config[joint]\<close> throws while
  there is no configuration; writing a property of \<open>undefined\<close> or \<open>null\<close> throws; so
  does, in strict mode, writing a property of a primitive. Writing \<open>__proto__\<close> on a
  section without such an own property, or on a primitive, changes no own property and
  does not throw; the robot never reads through the prototype of a section.
\<close>

definition config_assign ::
  "string \<Rightarrow> string \<Rightarrow> jsval \<Rightarrow> jsobject option \<Rightarrow> outcome + jsobject" where
  "config_assign joint param v cfg =
     (case cfg of
        None \<Rightarrow> Inl (Thrown TypeError)
      | Some c \<Rightarrow>
          (case map_of c joint of
             None \<Rightarrow> if inherited_name joint then Inl Unmodelled else Inl (Thrown TypeError)
           | Some JUndefined \<Rightarrow> Inl (Thrown TypeError)
           | Some JNull \<Rightarrow> Inl (Thrown TypeError)
           | Some (JObj ps) \<Rightarrow>
               if param = ''__proto__'' \<and> map_of ps param = None then Inr c
               else Inr (obj_set joint (JObj (obj_set param v ps)) c)
           | Some _ \<Rightarrow>
               if param = ''__proto__'' then Inr c else Inl (Thrown TypeError)))"

text \<open>
  \<open>this.motorMap[joint][param] = value\<close>. Replacing the prototype of a motor takes its
  methods away, which lies outside this model.
\<close>

definition motor_assign ::
  "string \<Rightarrow> string \<Rightarrow> jsval \<Rightarrow> (string \<times> motor) list \<Rightarrow> outcome + (string \<times> motor) list" where
  "motor_assign joint param v ms =
     (case map_of ms joint of
        None \<Rightarrow> if inherited_name joint then Inl Unmodelled else Inl (Thrown TypeError)
      | Some m \<Rightarrow>
          if param = ''__proto__'' then Inl Unmodelled
          else Inr (obj_set joint (obj_set param v m) ms))"

text \<open>The end of \<open>updateConfig\<close>: \<open>if (save) this.writeConfig(); this.emit('meta')\<close>.\<close>

definition save_and_emit :: "bool \<Rightarrow> robot \<Rightarrow> robot \<times> outcome" where
  "save_and_emit save s = (emit Meta (if save then writeConfig s else s), Returned)"

definition updateConfig ::
  "motor_class \<Rightarrow> string \<Rightarrow> jsval \<Rightarrow> bool \<Rightarrow> robot \<Rightarrow> robot \<times> outcome" where
  "updateConfig M key v save s =
     (if loosely_null v then (s, Returned)
      else if CHR ''.'' \<in> set key then
        (let joint = key_joint key; param = key_param key in
         case config_assign joint param v (config s) of
           Inl r \<Rightarrow> (s, r)
         | Inr c' \<Rightarrow>
             (let s1 = s\<lparr>config := Some c'\<rparr> in
              case motor_assign joint param v (motors s1) of
                Inl r \<Rightarrow> (s1, r)
              | Inr ms' \<Rightarrow>
                  (let s2 = s1\<lparr>motors := ms'\<rparr> in
                   if param = ''limitAdj'' then
                     (case one_motor M joint UpdateZeroStep s2 of
                        (s3, Returned) \<Rightarrow> save_and_emit save s3
                      | (s3, r) \<Rightarrow> (s3, r))
                   else save_and_emit save s2)))
      else
        (case config s of
           None \<Rightarrow> (s, Thrown TypeError)
         | Some c \<Rightarrow>
             if key = ''__proto__'' then (s, Unmodelled)
             else save_and_emit save (s\<lparr>config := Some (obj_set key v c)\<rparr>)))"

subsubsection \<open>Everything that can happen to a robot\<close>

datatype motor_event = EvHoming | EvHome | EvDisabled | EvEnabled | EvReset

text \<open>The handlers that the constructor subscribes to each motor's events.\<close>

fun on_motor_event :: "motor_event \<Rightarrow> string \<Rightarrow> robot \<Rightarrow> robot \<times> outcome" where
  "on_motor_event EvHome i s = motorHomed i s"
| "on_motor_event _ i s = robotState s"

text \<open>
  The calls of the methods of the class (\<open>Setup\<close> with the state of \<open>config.json\<close> and
  the motor that \<open>new Motor\<close> yields), the events of the motors, the three timers of
  \<open>start\<close>, and \<open>MotorChanged\<close>: between two of the former a motor changes its own
  properties (it handles bus traffic on its own). The getters \<open>state\<close> and \<open>meta\<close>
  change nothing.
\<close>

datatype operation =
    RobotHome
  | RobotStop
  | RobotCenter
  | RobotReset
  | RobotEnable
  | RobotState
  | MotorSetPosition string jsval jsval
  | MotorHome string
  | MotorResetErrors string
  | MotorEnable string
  | MotorDisable string
  | MotorZero string
  | MotorCalibrate string
  | QueryMotorPosition string
  | QueryMotorParamter string jsval jsval
  | UpdateConfig string jsval bool
  | WriteConfig
  | ReadConfig file_state
  | Setup file_state motor
  | Start
  | MotorEvent string motor_event
  | TickSetPoints
  | TickState
  | TickEncoder
  | MotorChanged string motor

fun perform :: "motor_class \<Rightarrow> operation \<Rightarrow> robot \<Rightarrow> robot \<times> outcome" where
  "perform M RobotHome s = robotHome M s"
| "perform M RobotStop s = robotStop M s"
| "perform M RobotCenter s = robotCenter M s"
| "perform M RobotReset s = robotReset M s"
| "perform M RobotEnable s = robotEnable M s"
| "perform M RobotState s = robotState s"
| "perform M (MotorSetPosition i p v) s = motorSetPosition M i p v s"
| "perform M (MotorHome i) s = motorHome M i s"
| "perform M (MotorResetErrors i) s = motorResetErrors M i s"
| "perform M (MotorEnable i) s = motorEnable M i s"
| "perform M (MotorDisable i) s = motorDisable M i s"
| "perform M (MotorZero i) s = motorZero M i s"
| "perform M (MotorCalibrate i) s = motorCalibrate M i s"
| "perform M (QueryMotorPosition i) s = queryMotorPosition M i s"
| "perform M (QueryMotorParamter i x y) s = queryMotorParamter M i x y s"
| "perform M (UpdateConfig k v save) s = updateConfig M k v save s"
| "perform M WriteConfig s = (writeConfig s, Returned)"
| "perform M (ReadConfig f) s = (readConfig f s, Returned)"
| "perform M (Setup f m) s = (setup_robot f [(''j0'', m)] s, Returned)"
| "perform M Start s = (start s, Returned)"
| "perform M (MotorEvent i e) s = on_motor_event e i s"
| "perform M TickSetPoints s = writeJointSetPoints M s"
| "perform M TickState s = (emit State s, Returned)"
| "perform M TickEncoder s = (emit Encoder s, Returned)"
| "perform M (MotorChanged i m) s =
     (case map_of (motors s) i of
        None \<Rightarrow> (s, Returned)
      | Some m0 \<Rightarrow> (s\<lparr>motors := obj_set i m (motors s)\<rparr>, Returned))"

text \<open>The state after a sequence of operations; a thrown error leaves the state it reached.\<close>

fun run :: "motor_class \<Rightarrow> robot \<Rightarrow> operation list \<Rightarrow> robot" where
  "run M s [] = s"
| "run M s (x # xs) = run M (fst (perform M x s)) xs"

subsection \<open>Observations and example collaborators\<close>

text \<open>Reading \<open>this.config[joint][param]\<close>; \<open>undefined\<close> where there is no such entry.\<close>

definition config_value :: "robot \<Rightarrow> string \<Rightarrow> string \<Rightarrow> jsval" where
  "config_value s joint param =
     (case config s of
        None \<Rightarrow> JUndefined
      | Some c \<Rightarrow> (case map_of c joint of Some (JObj ps) \<Rightarrow> obj_get ps param | _ \<Rightarrow> JUndefined))"

text \<open>A motor class whose methods all return and change nothing.\<close>

definition quiet_motor :: motor_class where
  "quiet_motor c m = (m, None)"

text \<open>A motor class in which \<open>writeJointSetPoints\<close> throws on the motor with id \<open>j\<close>.\<close>

definition jammed_motor :: "string \<Rightarrow> motor_class" where
  "jammed_motor j c m =
     (if c = WriteJointSetPoints \<and> obj_get m ''id'' = JStr j
      then (m, Some JointCommandError) else (m, None))"

definition new_motor :: "string \<Rightarrow> motor" where
  "new_motor j = [(''id'', JStr j), (''home'', JBool False)]"

text \<open>The robot of \<open>robot.js\<close> on a machine without \<open>config.json\<close>.\<close>

definition fresh_robot :: robot where
  "fresh_robot = new_Robot ''igus'' Absent (new_motor ''j0'')"

text \<open>Robots with two and three joints.\<close>

definition two_joint_robot :: robot where
  "two_joint_robot =
     constructor ''igus'' Absent [(''j0'', new_motor ''j0''), (''j1'', new_motor ''j1'')]"

definition three_joint_robot :: robot where
  "three_joint_robot =
     constructor ''igus'' Absent
       [(''j0'', new_motor ''j0''), (''j1'', new_motor ''j1''), (''j2'', new_motor ''j2'')]"


subsection \<open>Joints reaching home\<close>

text \<open>
  Modelled from the spec: when a joint reaches home, its controller sets the joint's
  homed flag (\<open>motor.home\<close>) and emits \<open>home(id)\<close>. The motor's side of this is not in
  the source; it is the operation \<open>MotorChanged\<close>. The event then reaches the robot as
  every motor event does, through the handlers that the constructor subscribed.
\<close>

definition joint_home_reached :: "motor_class \<Rightarrow> string \<Rightarrow> robot \<Rightarrow> robot" where
  "joint_home_reached M i s =
     (case map_of (motors s) i of
        None \<Rightarrow> run M s [MotorEvent i EvHome]
      | Some m \<Rightarrow>
          run M s [MotorChanged i (obj_set ''home'' (JBool True) m), MotorEvent i EvHome])"

fun home_events :: "motor_class \<Rightarrow> robot \<Rightarrow> string list \<Rightarrow> robot" where
  "home_events M s [] = s"
| "home_events M s (i # js) = home_events M (joint_home_reached M i s) js"

text \<open>
  After the events \<open>js\<close>, starting from \<open>s\<close>: at least one event has arrived, and every
  joint was homed in \<open>s\<close> or has reported since.
\<close>

definition all_reported :: "robot \<Rightarrow> string list \<Rightarrow> bool" where
  "all_reported s js =
     (js \<noteq> [] \<and> list_all (\<lambda>im. motor_home im \<or> fst im \<in> set js) (motors s))"

text \<open>A motor class whose \<open>goHome\<close> clears the homed flag of the motor.\<close>

definition homing_motor :: motor_class where
  "homing_motor c m =
     (if c = GoHome then (obj_set ''home'' (JBool False) m, None) else (m, None))"

text \<open>
  A robot with two joints that has been homed once (both joints reported) and on which
  \<open>robotHome\<close> has then been called again.
\<close>

definition rehomed_robot :: robot where
  "rehomed_robot =
     fst (robotHome homing_motor
       (home_events homing_motor (fst (robotHome homing_motor two_joint_robot))
          [''j0'', ''j1'']))"

text \<open>A run in which \<open>robotHome\<close> is never called while \<open>home\<close> is set.\<close>

fun rehoming_free :: "motor_class \<Rightarrow> robot \<Rightarrow> operation list \<Rightarrow> bool" where
  "rehoming_free M s [] = True"
| "rehoming_free M s (x # xs) =
     ((x = RobotHome \<longrightarrow> \<not> home s) \<and> rehoming_free M (fst (perform M x s)) xs)"

section \<open>Properties\<close>

text \<open>
  C9. For every joint set, right after construction the flags \<open>home\<close>, \<open>homing\<close> and
  \<open>stopped\<close> are all false.
\<close>

theorem constructor_flags:
  "home (constructor i f ms) = False \<and> homing (constructor i f ms) = False
   \<and> stopped (constructor i f ms) = False"
  by (simp add: constructor_def setup_robot_def start_def emit_def readConfig_def
      split: file_state.split)

subsection \<open>The loop over the motors\<close>

lemma forEach_motor_keys: "map fst (fst (forEach_motor M c ms)) = map fst ms"
  by (induction ms) (auto split: prod.splits option.splits)

lemma forEach_motor_returns:
  "list_all (\<lambda>im. snd (invoke M c (snd im)) = None) ms \<Longrightarrow>
   forEach_motor M c ms =
     (map (\<lambda>im. (fst im, fst (invoke M c (snd im)))) ms, map (\<lambda>im. (fst im, c)) ms, None)"
  by (induction ms) (auto split: prod.splits option.splits)

lemma forEach_motor_throws:
  "list_all (\<lambda>im. snd (invoke M c (snd im)) = None) pre \<Longrightarrow>
   invoke M c m = (m', Some e) \<Longrightarrow>
   forEach_motor M c (pre @ (i, m) # post) =
     (map (\<lambda>im. (fst im, fst (invoke M c (snd im)))) pre @ (i, m') # post,
      map (\<lambda>im. (fst im, c)) pre @ [(i, c)], Some e)"
  by (induction pre) (auto split: prod.splits option.splits)

subsection \<open>Which operations touch which flag\<close>

lemma all_motors_flags:
  "stopped (fst (all_motors M c s)) = stopped s"
  "ready (fst (all_motors M c s)) = ready s"
  "home (fst (all_motors M c s)) = home s"
  "homing (fst (all_motors M c s)) = homing s"
  "moving (fst (all_motors M c s)) = moving s"
  by (simp_all add: all_motors_def split: prod.splits)

lemma one_motor_flags:
  "stopped (fst (one_motor M i c s)) = stopped s"
  "ready (fst (one_motor M i c s)) = ready s"
  "home (fst (one_motor M i c s)) = home s"
  "homing (fst (one_motor M i c s)) = homing s"
  "moving (fst (one_motor M i c s)) = moving s"
  by (simp_all add: one_motor_def split: prod.splits option.splits)

lemma updateConfig_flags:
  "stopped (fst (updateConfig M k v sv s)) = stopped s"
  "ready (fst (updateConfig M k v sv s)) = ready s"
  "home (fst (updateConfig M k v sv s)) = home s"
  "homing (fst (updateConfig M k v sv s)) = homing s"
  "moving (fst (updateConfig M k v sv s)) = moving s"
  by (auto simp: updateConfig_def Let_def save_and_emit_def emit_def writeConfig_def
      one_motor_def split: sum.splits option.splits prod.splits outcome.splits)

lemma robot_action_moving:
  "moving s \<Longrightarrow> moving (fst (robotHome M s))"
  "moving s \<Longrightarrow> moving (fst (robotStop M s))"
  "moving (fst (robotCenter M s))"
  "moving s \<Longrightarrow> moving (fst (robotReset M s))"
  "moving s \<Longrightarrow> moving (fst (robotEnable M s))"
proof -
  have a: "moving (fst (all_motors M c t)) = moving t" for c t
    by (rule all_motors_flags)
  have b: "moving (fst (case all_motors M c t of
               (s', Some e) \<Rightarrow> (s', Thrown e) | (s', None) \<Rightarrow> (emit Meta s', Returned)))
           = moving t" for c t
    using a [of c t]
    by (cases "all_motors M c t") (auto simp: emit_def split: option.splits)
  show "moving s \<Longrightarrow> moving (fst (robotHome M s))"
    using a [of GoHome "s\<lparr>homing := True\<rparr>"]
    by (cases "all_motors M GoHome (s\<lparr>homing := True\<rparr>)") (simp add: robotHome_def)
  show "moving s \<Longrightarrow> moving (fst (robotStop M s))"
    unfolding robotStop_def by (simp add: b)
  show "moving (fst (robotCenter M s))"
    unfolding robotCenter_def by (simp add: b)
  show "moving s \<Longrightarrow> moving (fst (robotReset M s))"
    unfolding robotReset_def by (simp add: b)
  show "moving s \<Longrightarrow> moving (fst (robotEnable M s))"
    unfolding robotEnable_def by (simp add: b)
qed

lemma perform_moving: "moving s \<Longrightarrow> moving (fst (perform M x s))"
proof (cases x)
  case (MotorEvent i e)
  assume "moving s"
  then show ?thesis
    unfolding MotorEvent
    by (cases e) (simp_all add: motorHomed_def robotState_def emit_def Let_def)
next
  case TickSetPoints
  assume "moving s"
  then show ?thesis
    unfolding TickSetPoints
    using all_motors_flags(5) [of M WriteJointSetPoints s]
    by (cases "all_motors M WriteJointSetPoints s") (simp add: writeJointSetPoints_def)
qed (simp_all add: robot_action_moving robotState_def emit_def one_motor_flags
      motorSetPosition_def motorHome_def motorResetErrors_def motorEnable_def
      motorDisable_def motorZero_def motorCalibrate_def queryMotorPosition_def
      queryMotorParamter_def updateConfig_flags writeConfig_def readConfig_def
      setup_robot_def start_def split: option.splits file_state.splits)

lemma run_moving: "moving s \<Longrightarrow> moving (run M s xs)"
  by (induction xs arbitrary: s) (simp_all add: perform_moving)

subsection \<open>Objects and keys\<close>

lemma map_of_obj_set: "map_of (obj_set k v ps) k' = (if k' = k then Some v else map_of ps k')"
  by (induction ps) auto

lemma obj_set_twice: "obj_set k v (obj_set k w ps) = obj_set k v ps"
  by (induction ps) auto

lemma obj_get_obj_set: "obj_get (obj_set k v ps) k = v"
  by (simp add: obj_get_def map_of_obj_set)

lemma key_joint_dotted: "CHR ''.'' \<notin> set j \<Longrightarrow> key_joint (j @ CHR ''.'' # p) = j"
  by (induction j) (auto simp: key_joint_def)

lemma key_param_dotted:
  "CHR ''.'' \<notin> set j \<Longrightarrow>
   key_param (j @ CHR ''.'' # p) = takeWhile (\<lambda>c. c \<noteq> CHR ''.'') p"
  by (induction j) (auto simp: key_param_def)

subsection \<open>Homing\<close>

lemma obj_set_keys: "map_of ps k \<noteq> None \<Longrightarrow> map fst (obj_set k v ps) = map fst ps"
  by (induction ps) auto

lemma list_all_obj_set:
  "distinct (map fst ps) \<Longrightarrow> map_of ps k = Some w \<Longrightarrow>
   list_all Q (obj_set k v ps) = (Q (k, v) \<and> list_all (\<lambda>kv. fst kv = k \<or> Q kv) ps)"
proof (induction ps)
  case Nil
  then show ?case by simp
next
  case (Cons a ps)
  show ?case
  proof (cases "fst a = k")
    case True
    then have "k \<notin> fst ` set ps" using Cons.prems(1) by auto
    then have "list_all (\<lambda>kv. fst kv = k \<or> Q kv) ps = list_all Q ps"
      by (auto simp: list_all_iff)
    with True show ?thesis by (cases a) auto
  next
    case False
    then show ?thesis using Cons by (cases a) auto
  qed
qed

lemma list_all_absent_key:
  "map_of ps k = None \<Longrightarrow>
   list_all (\<lambda>kv. fst kv = k \<or> Q kv) ps = list_all Q ps"
  by (induction ps) (auto split: if_splits)

lemma motor_home_marked: "motor_home (i, obj_set ''home'' (JBool True) m)"
  by (simp add: motor_home_def obj_get_obj_set)

lemma joint_home_reached_handler:
  "joint_home_reached M j t =
     fst (motorHomed j
       (case map_of (motors t) j of
          None \<Rightarrow> t
        | Some m \<Rightarrow> t\<lparr>motors := obj_set j (obj_set ''home'' (JBool True) m) (motors t)\<rparr>))"
  by (simp add: joint_home_reached_def split: option.splits)

lemma joint_home_reached_keys:
  "map fst (motors (joint_home_reached M j t)) = map fst (motors t)"
  by (auto simp: joint_home_reached_handler motorHomed_def emit_def Let_def obj_set_keys
      split: option.splits)

lemma joint_home_reached_all:
  assumes "distinct (map fst (motors t))"
  shows "list_all (\<lambda>im. motor_home im \<or> fst im \<in> A) (motors (joint_home_reached M j t))
     = list_all (\<lambda>im. motor_home im \<or> fst im \<in> insert j A) (motors t)"
proof (cases "map_of (motors t) j")
  case None
  have "list_all (\<lambda>im. motor_home im \<or> fst im \<in> insert j A) (motors t)
      = list_all (\<lambda>im. fst im = j \<or> (motor_home im \<or> fst im \<in> A)) (motors t)"
    by (rule arg_cong [where f = "\<lambda>P. list_all P (motors t)"]) auto
  also have "\<dots> = list_all (\<lambda>im. motor_home im \<or> fst im \<in> A) (motors t)"
    using None by (rule list_all_absent_key)
  finally show ?thesis
    using None by (simp add: joint_home_reached_handler motorHomed_def emit_def Let_def)
next
  case (Some m)
  have "list_all (\<lambda>im. motor_home im \<or> fst im \<in> insert j A) (motors t)
      = list_all (\<lambda>im. fst im = j \<or> (motor_home im \<or> fst im \<in> A)) (motors t)"
    by (rule arg_cong [where f = "\<lambda>P. list_all P (motors t)"]) auto
  then show ?thesis
    using Some list_all_obj_set [OF assms Some, of "\<lambda>im. motor_home im \<or> fst im \<in> A"
        "obj_set ''home'' (JBool True) m"]
    by (simp add: joint_home_reached_handler motorHomed_def emit_def Let_def motor_home_marked)
qed

lemma joint_home_reached_flags:
  "homing (joint_home_reached M j t)
     = (homing t \<and> \<not> list_all motor_home (motors (joint_home_reached M j t)))"
  "home (joint_home_reached M j t)
     = (home t \<or> homing t \<and> list_all motor_home (motors (joint_home_reached M j t)))"
  by (auto simp: joint_home_reached_handler motorHomed_def emit_def Let_def split: option.splits)

lemma home_events_flags:
  "distinct (map fst (motors t)) \<Longrightarrow>
   homing (home_events M t js) = (homing t \<and> \<not> all_reported t js)
   \<and> home (home_events M t js) = (home t \<or> homing t \<and> all_reported t js)"
proof (induction js arbitrary: t)
  case Nil
  then show ?case by (simp add: all_reported_def)
next
  case (Cons j js)
  let ?t1 = "joint_home_reached M j t"
  have d: "distinct (map fst (motors ?t1))"
    using Cons.prems by (simp add: joint_home_reached_keys)
  have now: "list_all motor_home (motors ?t1)
      = list_all (\<lambda>im. motor_home im \<or> fst im \<in> {j}) (motors t)"
    using joint_home_reached_all [OF Cons.prems, of "{}" M j] by simp
  have later: "list_all (\<lambda>im. motor_home im \<or> fst im \<in> set js) (motors ?t1)
      = list_all (\<lambda>im. motor_home im \<or> fst im \<in> set (j # js)) (motors t)"
    using joint_home_reached_all [OF Cons.prems, of "set js" M j] by simp
  have mono: "list_all (\<lambda>im. motor_home im \<or> fst im \<in> {j}) (motors t)
      \<Longrightarrow> list_all (\<lambda>im. motor_home im \<or> fst im \<in> set (j # js)) (motors t)"
    by (auto simp: list_all_iff)
  have last: "js = [] \<Longrightarrow> list_all (\<lambda>im. motor_home im \<or> fst im \<in> set (j # js)) (motors t)
      = list_all (\<lambda>im. motor_home im \<or> fst im \<in> {j}) (motors t)"
    by simp
  show ?case
    using Cons.IH [OF d] joint_home_reached_flags [of M j t] now later mono last
    by (auto simp: all_reported_def)
qed

lemma robotHome_flags:
  "homing (fst (robotHome M s))" "home (fst (robotHome M s)) = home s"
  "map fst (motors (fst (robotHome M s))) = map fst (motors s)"
  using all_motors_flags(3,4) [of M GoHome "s\<lparr>homing := True\<rparr>"]
    forEach_motor_keys [of M GoHome "motors s"]
  by (cases "all_motors M GoHome (s\<lparr>homing := True\<rparr>)",
      auto simp: robotHome_def all_motors_def split: prod.splits)+

lemma perform_home_homing:
  "x \<noteq> RobotHome \<Longrightarrow>
   (homing (fst (perform M x s)) = homing s \<and> home (fst (perform M x s)) = home s)
   \<or> (\<not> homing (fst (perform M x s)) \<and> home (fst (perform M x s)))"
proof (cases x)
  case (MotorEvent i e)
  then show ?thesis
    by (cases e) (simp_all add: motorHomed_def robotState_def emit_def Let_def)
next
  case TickSetPoints
  then show ?thesis
    using all_motors_flags(3,4) [of M WriteJointSetPoints s]
    by (cases "all_motors M WriteJointSetPoints s") (simp add: writeJointSetPoints_def)
next
  case RobotStop
  then show ?thesis
    using all_motors_flags(3,4) [of M Disable "s\<lparr>stopped := True\<rparr>"]
    by (cases "all_motors M Disable (s\<lparr>stopped := True\<rparr>)")
      (auto simp: robotStop_def emit_def split: option.splits)
next
  case RobotCenter
  then show ?thesis
    using all_motors_flags(3,4) [of M Zero "s\<lparr>moving := True\<rparr>"]
    by (cases "all_motors M Zero (s\<lparr>moving := True\<rparr>)")
      (auto simp: robotCenter_def emit_def split: option.splits)
next
  case RobotReset
  then show ?thesis
    using all_motors_flags(3,4) [of M Reset "s\<lparr>stopped := False\<rparr>"]
    by (cases "all_motors M Reset (s\<lparr>stopped := False\<rparr>)")
      (auto simp: robotReset_def emit_def split: option.splits)
next
  case RobotEnable
  then show ?thesis
    using all_motors_flags(3,4) [of M Enable "s\<lparr>stopped := False\<rparr>"]
    by (cases "all_motors M Enable (s\<lparr>stopped := False\<rparr>)")
      (auto simp: robotEnable_def emit_def split: option.splits)
qed (simp_all add: robotState_def emit_def one_motor_flags
      motorSetPosition_def motorHome_def motorResetErrors_def motorEnable_def
      motorDisable_def motorZero_def motorCalibrate_def queryMotorPosition_def
      queryMotorParamter_def updateConfig_flags writeConfig_def readConfig_def
      setup_robot_def start_def split: option.splits file_state.splits)

lemma run_exclusive:
  "\<not> (homing s \<and> home s) \<Longrightarrow> rehoming_free M s xs \<Longrightarrow>
   \<not> (homing (run M s xs) \<and> home (run M s xs))"
proof (induction xs arbitrary: s)
  case Nil
  then show ?case by simp
next
  case (Cons x xs)
  have "\<not> (homing (fst (perform M x s)) \<and> home (fst (perform M x s)))"
  proof (cases "x = RobotHome")
    case True
    then show ?thesis using Cons.prems(2) by (simp add: robotHome_flags)
  next
    case False
    then show ?thesis using perform_home_homing [OF False, of M s] Cons.prems(1) by auto
  qed
  then show ?case using Cons.IH Cons.prems(2) by simp
qed

lemmas example_defs =
  fresh_robot_def new_Robot_def two_joint_robot_def constructor_def setup_robot_def
  start_def emit_def readConfig_def new_motor_def invoke_def quiet_motor_def obj_get_def

subsection \<open>The claims\<close>

text \<open>
  C10. \<open>robotCenter\<close> sets \<open>moving\<close>, also when a motor's \<open>zero\<close> throws, and no sequence
  of operations on the robot sets it back: \<open>moving\<close> holds in every state reachable after
  the call, and the metadata shows it.
\<close>

theorem moving_never_cleared:
  "moving (run M (fst (robotCenter M s)) xs)
   \<and> meta_moving (meta (run M (fst (robotCenter M s)) xs))"
  by (simp add: meta_def run_moving robot_action_moving)

text \<open>
  C8. A per-joint command addressed to an id that is no key of the motor map raises an
  error to the caller and leaves the whole robot, flags and motors, as it was. The error
  is the engine's \<open>TypeError\<close> of calling a method of \<open>undefined\<close>: the class looks
  nothing up and defines no error of its own. This holds of all nine per-joint commands.
\<close>

theorem unknown_joint_command:
  assumes "map_of (motors s) g = None"
  shows "motorSetPosition M g position velocity s = (s, Thrown TypeError)
    \<and> motorHome M g s = (s, Thrown TypeError)
    \<and> motorResetErrors M g s = (s, Thrown TypeError)
    \<and> motorEnable M g s = (s, Thrown TypeError)
    \<and> motorDisable M g s = (s, Thrown TypeError)
    \<and> motorZero M g s = (s, Thrown TypeError)
    \<and> motorCalibrate M g s = (s, Thrown TypeError)
    \<and> queryMotorPosition M g s = (s, Thrown TypeError)
    \<and> queryMotorParamter M g index subindex s = (s, Thrown TypeError)"
  using assms
  by (simp add: one_motor_def motorSetPosition_def motorHome_def motorResetErrors_def
      motorEnable_def motorDisable_def motorZero_def motorCalibrate_def
      queryMotorPosition_def queryMotorParamter_def)

theorem unknown_joint_command_witness:
  "map_of (motors fresh_robot) ''ghost'' = None
   \<and> motorSetPosition quiet_motor ''ghost'' (JNum 10) JUndefined fresh_robot
       = (fresh_robot, Thrown TypeError)"
proof -
  have h: "map_of (motors fresh_robot) ''ghost'' = None"
    by (simp add: fresh_robot_def new_Robot_def constructor_def setup_robot_def start_def
        emit_def readConfig_def)
  show ?thesis
    using h unknown_joint_command [OF h, of quiet_motor "JNum 10" JUndefined] by simp
qed

theorem unknown_joint_raises_TypeError:
  "snd (motorHome quiet_motor ''ghost'' fresh_robot) = Thrown TypeError"
  by (simp add: motorHome_def one_motor_def example_defs)

text \<open>
  C6. \<open>updateConfig\<close> with a \<open>null\<close> (or \<open>undefined\<close>) value, for every key and every
  \<open>save\<close>: the robot is left exactly as it was (configuration, motors, nothing written,
  nothing emitted) and the call returns normally; the rejection is only logged.
\<close>

theorem updateConfig_null:
  "updateConfig M key JNull save s = (s, Returned)
   \<and> updateConfig M key JUndefined save s = (s, Returned)"
  by (simp add: updateConfig_def)

theorem updateConfig_null_returns:
  "snd (updateConfig quiet_motor ''j0.limitAdj'' JNull True fresh_robot) = Returned"
  by (simp add: updateConfig_def)

text \<open>
  C3. While \<open>stopped\<close>, \<open>writeJointSetPoints\<close> returns without calling any motor and
  leaves the robot as it was. Otherwise, when no motor's write throws, it calls
  \<open>writeJointSetPoints\<close> on every motor exactly once, in the order of \<open>this.motors\<close>, and
  returns.
\<close>

theorem writeJointSetPoints_dispatch:
  "(stopped s \<longrightarrow> writeJointSetPoints M s = (s, Returned))
   \<and> (\<not> stopped s
        \<and> list_all (\<lambda>im. snd (invoke M WriteJointSetPoints (snd im)) = None) (motors s)
      \<longrightarrow> writeJointSetPoints M s =
            (s\<lparr>motors := map (\<lambda>im. (fst im, fst (invoke M WriteJointSetPoints (snd im))))
                           (motors s),
               calls := calls s @ map (\<lambda>im. (fst im, WriteJointSetPoints)) (motors s)\<rparr>,
             Returned))"
  by (simp add: writeJointSetPoints_def all_motors_def forEach_motor_returns)

theorem writeJointSetPoints_dispatch_witness:
  "stopped (fst (robotStop quiet_motor two_joint_robot))
   \<and> calls (fst (writeJointSetPoints quiet_motor (fst (robotStop quiet_motor two_joint_robot))))
       = [(''j0'', Disable), (''j1'', Disable)]
   \<and> \<not> stopped two_joint_robot
   \<and> list_all (\<lambda>im. snd (invoke quiet_motor WriteJointSetPoints (snd im)) = None)
        (motors two_joint_robot)
   \<and> calls (fst (writeJointSetPoints quiet_motor two_joint_robot))
       = [(''j0'', WriteJointSetPoints), (''j1'', WriteJointSetPoints)]"
proof -
  have m: "motors two_joint_robot = [(''j0'', new_motor ''j0''), (''j1'', new_motor ''j1'')]"
    and c: "calls two_joint_robot = []" and r: "\<not> stopped two_joint_robot"
    by (simp_all add: example_defs)
  have ok: "list_all (\<lambda>im. snd (invoke quiet_motor WriteJointSetPoints (snd im)) = None)
        (motors two_joint_robot)"
    by (simp add: m new_motor_def invoke_def quiet_motor_def)
  have s1: "stopped (fst (robotStop quiet_motor two_joint_robot))"
    and c1: "calls (fst (robotStop quiet_motor two_joint_robot))
       = [(''j0'', Disable), (''j1'', Disable)]"
    by (simp_all add: robotStop_def all_motors_def example_defs)
  show ?thesis
    using writeJointSetPoints_dispatch [of "fst (robotStop quiet_motor two_joint_robot)" quiet_motor]
      writeJointSetPoints_dispatch [of two_joint_robot quiet_motor] s1 c1 r ok
    by (simp add: m c)
qed

theorem writeJointSetPoints_skips_later_joints:
  "\<not> stopped three_joint_robot
   \<and> calls (fst (writeJointSetPoints (jammed_motor ''j1'') three_joint_robot))
       = [(''j0'', WriteJointSetPoints), (''j1'', WriteJointSetPoints)]"
  by (simp add: writeJointSetPoints_def all_motors_def three_joint_robot_def
      jammed_motor_def example_defs)

text \<open>
  C4. The loop of \<open>writeJointSetPoints\<close> has no handler: when the write of one motor
  throws, the motors before it have been written, the write of the failing motor has
  been attempted, no later motor is called, and the error reaches the caller.
\<close>

theorem writeJointSetPoints_failure:
  assumes "\<not> stopped s"
    and "motors s = pre @ (i, m) # post"
    and "list_all (\<lambda>im. snd (invoke M WriteJointSetPoints (snd im)) = None) pre"
    and "invoke M WriteJointSetPoints m = (m', Some e)"
  shows "writeJointSetPoints M s =
     (s\<lparr>motors := map (\<lambda>im. (fst im, fst (invoke M WriteJointSetPoints (snd im)))) pre
                     @ (i, m') # post,
        calls := calls s @ map (\<lambda>im. (fst im, WriteJointSetPoints)) pre
                     @ [(i, WriteJointSetPoints)]\<rparr>,
      Thrown e)"
  using assms
  by (simp add: writeJointSetPoints_def all_motors_def forEach_motor_throws)

theorem writeJointSetPoints_failure_witness:
  "\<not> stopped two_joint_robot
   \<and> motors two_joint_robot = [(''j0'', new_motor ''j0'')] @ (''j1'', new_motor ''j1'') # []
   \<and> list_all (\<lambda>im. snd (invoke (jammed_motor ''j1'') WriteJointSetPoints (snd im)) = None)
        [(''j0'', new_motor ''j0'')]
   \<and> invoke (jammed_motor ''j1'') WriteJointSetPoints (new_motor ''j1'')
        = (new_motor ''j1'', Some JointCommandError)
   \<and> writeJointSetPoints (jammed_motor ''j1'') two_joint_robot =
       (two_joint_robot\<lparr>calls := [(''j0'', WriteJointSetPoints), (''j1'', WriteJointSetPoints)]\<rparr>,
        Thrown JointCommandError)"
proof -
  have m: "motors two_joint_robot = [(''j0'', new_motor ''j0'')] @ (''j1'', new_motor ''j1'') # []"
    and c: "calls two_joint_robot = []" and r: "\<not> stopped two_joint_robot"
    by (simp_all add: two_joint_robot_def constructor_def setup_robot_def start_def emit_def
        readConfig_def)
  have ok: "list_all (\<lambda>im. snd (invoke (jammed_motor ''j1'') WriteJointSetPoints (snd im)) = None)
        [(''j0'', new_motor ''j0'')]"
    by (simp add: new_motor_def invoke_def jammed_motor_def obj_get_def)
  have bad: "invoke (jammed_motor ''j1'') WriteJointSetPoints (new_motor ''j1'')
        = (new_motor ''j1'', Some JointCommandError)"
    by (simp add: new_motor_def invoke_def jammed_motor_def obj_get_def)
  have j0: "invoke (jammed_motor ''j1'') WriteJointSetPoints (new_motor ''j0'')
        = (new_motor ''j0'', None)"
    by (simp add: new_motor_def invoke_def jammed_motor_def obj_get_def)
  have "two_joint_robot\<lparr>motors := [(''j0'', new_motor ''j0''), (''j1'', new_motor ''j1'')]\<rparr>
        = two_joint_robot"
    using m by simp
  then show ?thesis
    using writeJointSetPoints_failure [OF r m ok bad] r m ok bad
    by (simp add: c j0)
qed

theorem writeJointSetPoints_error_propagates:
  "snd (writeJointSetPoints (jammed_motor ''j0'') fresh_robot) = Thrown JointCommandError
   \<and> calls (fst (writeJointSetPoints (jammed_motor ''j0'') two_joint_robot))
       = [(''j0'', WriteJointSetPoints)]"
  by (simp add: writeJointSetPoints_def all_motors_def fresh_robot_def new_Robot_def
      two_joint_robot_def constructor_def setup_robot_def start_def emit_def readConfig_def
      new_motor_def invoke_def jammed_motor_def obj_get_def)

text \<open>
  C5. \<open>updateConfig('j0.limitAdj', 5, false)\<close> is to store 5 under \<open>config.j0.limitAdj\<close>
  and under the motor's \<open>limitAdj\<close>, call \<open>updateZeroStep\<close> and emit \<open>meta\<close>. On a machine
  without \<open>config.json\<close> the constructor's \<open>readConfig\<close> creates the configuration \<open>{}\<close>;
  there \<open>this.config[joint]\<close> is \<open>undefined\<close>, the assignment to its property throws, and
  the call ends before the configuration, the motor or the listeners have seen anything.
  The branch for keys without a dot does create a missing entry.
\<close>

theorem updateConfig_limitAdj_fresh_config:
  "config fresh_robot = Some []
   \<and> updateConfig quiet_motor ''j0.limitAdj'' (JNum 5) False fresh_robot
       = (fresh_robot, Thrown TypeError)
   \<and> config_value fresh_robot ''j0'' ''limitAdj'' = JUndefined
   \<and> config (fst (updateConfig quiet_motor ''j0'' (JNum 5) False fresh_robot))
       = Some [(''j0'', JNum 5)]"
  by (simp add: updateConfig_def Let_def key_joint_def key_param_def config_assign_def
      config_value_def save_and_emit_def inherited_name_def object_prototype_names_def
      example_defs)

text \<open>
  Where the configuration does hold an object under the joint, and the motor's
  \<open>updateZeroStep\<close> returns, the call does what is asked of it: the value is stored in
  both places, \<open>updateZeroStep\<close> is called once on the motor that carries the new value,
  the file is written exactly when \<open>save\<close> is set, and \<open>meta\<close> is emitted once.
\<close>

lemma updateConfig_limitAdj_with_section:
  assumes "map_of (motors s) j = Some m"
    and "config s = Some c"
    and "map_of c j = Some (JObj ps)"
    and "CHR ''.'' \<notin> set j"
    and "\<not> loosely_null v"
    and "invoke M UpdateZeroStep (obj_set ''limitAdj'' v m) = (m', None)"
  shows "updateConfig M (j @ ''.limitAdj'') v save s =
     (s\<lparr>config := Some (obj_set j (JObj (obj_set ''limitAdj'' v ps)) c),
        motors := obj_set j m' (motors s),
        calls := calls s @ [(j, UpdateZeroStep)],
        written := (if save then written s @ [obj_set j (JObj (obj_set ''limitAdj'' v ps)) c]
                    else written s),
        emitted := emitted s @ [Meta]\<rparr>,
      Returned)"
proof -
  let ?c' = "obj_set j (JObj (obj_set ''limitAdj'' v ps)) c"
  let ?m1 = "obj_set ''limitAdj'' v m"
  have kj: "key_joint (j @ ''.limitAdj'') = j"
    using assms(4) by (rule key_joint_dotted)
  have kp: "key_param (j @ ''.limitAdj'') = ''limitAdj''"
    using key_param_dotted [OF assms(4), of "''limitAdj''"] by simp
  have ca: "config_assign j ''limitAdj'' v (config s) = Inr ?c'"
    using assms(2,3) by (simp add: config_assign_def)
  have ma: "motor_assign j ''limitAdj'' v (motors s) = Inr (obj_set j ?m1 (motors s))"
    using assms(1) by (simp add: motor_assign_def)
  have om: "one_motor M j UpdateZeroStep (s\<lparr>config := Some ?c', motors := obj_set j ?m1 (motors s)\<rparr>)
      = (s\<lparr>config := Some ?c', motors := obj_set j m' (obj_set j ?m1 (motors s)),
           calls := calls s @ [(j, UpdateZeroStep)]\<rparr>, Returned)"
    using assms(6) by (simp add: one_motor_def map_of_obj_set)
  have twice: "obj_set j m' (obj_set j ?m1 (motors s)) = obj_set j m' (motors s)"
    by (rule obj_set_twice)
  show ?thesis
    using assms(5)
    by (simp add: updateConfig_def kj kp ca ma om twice save_and_emit_def emit_def
        writeConfig_def del: obj_set.simps)
qed




text \<open>
  C1. \<open>robotHome\<close> sets \<open>homing\<close> (also when a motor's \<open>goHome\<close> throws) and leaves
  \<open>home\<close> as it was. Afterwards, for every sequence \<open>js\<close> of home-reached events,
  delivered through the subscribed handlers: \<open>homing\<close> is cleared exactly when an event
  has arrived and every joint is homed (it was homed already or has reported since), and
  by no earlier event; \<open>home\<close> is set from that event on, and until then keeps the value
  it had when \<open>robotHome\<close> was called. So on a robot that was not home, \<open>home\<close> becomes
  true exactly at that event. The keys of the motor map are distinct, as the keys of an
  object are.
\<close>

theorem robotHome_completion:
  assumes "distinct (map fst (motors s))"
  shows "homing (fst (robotHome M s))
    \<and> home (fst (robotHome M s)) = home s
    \<and> homing (home_events M (fst (robotHome M s)) js)
        = (\<not> all_reported (fst (robotHome M s)) js)
    \<and> home (home_events M (fst (robotHome M s)) js)
        = (home s \<or> all_reported (fst (robotHome M s)) js)"
proof -
  have "distinct (map fst (motors (fst (robotHome M s))))"
    using assms by (simp add: robotHome_flags)
  from home_events_flags [OF this, of M js] show ?thesis
    by (simp add: robotHome_flags)
qed

theorem robotHome_completion_witness:
  "distinct (map fst (motors three_joint_robot))
   \<and> homing (fst (robotHome quiet_motor three_joint_robot))
   \<and> \<not> home (home_events quiet_motor (fst (robotHome quiet_motor three_joint_robot))
          [''j1''])
   \<and> \<not> home (home_events quiet_motor (fst (robotHome quiet_motor three_joint_robot))
          [''j1'', ''j0''])
   \<and> home (home_events quiet_motor (fst (robotHome quiet_motor three_joint_robot))
          [''j1'', ''j0'', ''j2''])
   \<and> \<not> homing (home_events quiet_motor (fst (robotHome quiet_motor three_joint_robot))
          [''j1'', ''j0'', ''j2''])"
proof -
  have d: "distinct (map fst (motors three_joint_robot))"
    and h: "\<not> home three_joint_robot"
    by (simp_all add: example_defs three_joint_robot_def)
  have m: "motors (fst (robotHome quiet_motor three_joint_robot))
      = [(''j0'', new_motor ''j0''), (''j1'', new_motor ''j1''), (''j2'', new_motor ''j2'')]"
    by (simp add: robotHome_def all_motors_def example_defs three_joint_robot_def)
  have nh: "\<not> motor_home (i, new_motor j)" for i j
    by (simp add: motor_home_def new_motor_def obj_get_def)
  show ?thesis
    using robotHome_completion [OF d, of quiet_motor "[''j1'']"]
      robotHome_completion [OF d, of quiet_motor "[''j1'', ''j0'']"]
      robotHome_completion [OF d, of quiet_motor "[''j1'', ''j0'', ''j2'']"] d h
    by (simp add: all_reported_def m nh)
qed

theorem rehoming_home_before_last_joint:
  "homing rehomed_robot
   \<and> home rehomed_robot
   \<and> \<not> all_reported rehomed_robot [''j1'']
   \<and> home (home_events homing_motor rehomed_robot [''j1''])
   \<and> homing (home_events homing_motor rehomed_robot [''j1''])
   \<and> map_of (motors (home_events homing_motor rehomed_robot [''j1''])) ''j0''
       = Some [(''id'', JStr ''j0''), (''home'', JBool False)]"
  by (simp add: rehomed_robot_def homing_motor_def joint_home_reached_def robotHome_def
      all_motors_def motorHomed_def motor_home_def all_reported_def Let_def example_defs)

text \<open>
  C2. In every state reached from construction by operations among which \<open>robotHome\<close> is
  never called while \<open>home\<close> is set, \<open>homing\<close> and \<open>home\<close> are not both set. \<open>robotHome\<close>
  itself sets \<open>homing\<close> and leaves \<open>home\<close> as it was: no operation ever clears \<open>home\<close>.
\<close>

theorem homing_home_exclusive:
  "(rehoming_free M (constructor i f ms) xs \<longrightarrow>
      \<not> (homing (run M (constructor i f ms) xs) \<and> home (run M (constructor i f ms) xs)))
   \<and> homing (fst (robotHome M s))
   \<and> home (fst (robotHome M s)) = home s"
proof -
  have "\<not> (homing (constructor i f ms) \<and> home (constructor i f ms))"
    by (simp add: constructor_def setup_robot_def start_def emit_def readConfig_def
        split: file_state.split)
  then show ?thesis
    using run_exclusive [of "constructor i f ms" M xs] by (simp add: robotHome_flags)
qed

theorem homing_home_exclusive_witness:
  "rehoming_free quiet_motor (constructor ''igus'' Absent [(''j0'', new_motor ''j0'')])
     [RobotHome, MotorChanged ''j0'' [(''id'', JStr ''j0''), (''home'', JBool True)],
      MotorEvent ''j0'' EvHome]
   \<and> \<not> (homing (run quiet_motor (constructor ''igus'' Absent [(''j0'', new_motor ''j0'')])
          [RobotHome, MotorChanged ''j0'' [(''id'', JStr ''j0''), (''home'', JBool True)],
           MotorEvent ''j0'' EvHome])
        \<and> home (run quiet_motor (constructor ''igus'' Absent [(''j0'', new_motor ''j0'')])
          [RobotHome, MotorChanged ''j0'' [(''id'', JStr ''j0''), (''home'', JBool True)],
           MotorEvent ''j0'' EvHome]))"
proof -
  have r: "rehoming_free quiet_motor (constructor ''igus'' Absent [(''j0'', new_motor ''j0'')])
     [RobotHome, MotorChanged ''j0'' [(''id'', JStr ''j0''), (''home'', JBool True)],
      MotorEvent ''j0'' EvHome]"
    by (simp add: example_defs)
  show ?thesis
    using homing_home_exclusive [of quiet_motor "''igus''" Absent
        "[(''j0'', new_motor ''j0'')]"
        "[RobotHome, MotorChanged ''j0'' [(''id'', JStr ''j0''), (''home'', JBool True)],
          MotorEvent ''j0'' EvHome]"] r
    by blast
qed

theorem rehoming_sets_both_flags:
  "homing (run quiet_motor fresh_robot
      [RobotHome, MotorChanged ''j0'' [(''id'', JStr ''j0''), (''home'', JBool True)],
       MotorEvent ''j0'' EvHome, RobotHome])
   \<and> home (run quiet_motor fresh_robot
      [RobotHome, MotorChanged ''j0'' [(''id'', JStr ''j0''), (''home'', JBool True)],
       MotorEvent ''j0'' EvHome, RobotHome])"
  by (simp add: robotHome_def all_motors_def motorHomed_def motor_home_def Let_def
      example_defs)

end
